theory Spec2Isabelle
  imports Complex_Main
begin

section \<open>Python strings\<close>

text \<open>
  A Python \<open>str\<close> is modelled as a \<open>string\<close> of ASCII characters. The character
  classes below are the ASCII part of the classes Python uses (\<open>\d\<close>, \<open>\s\<close>,
  \<open>str.strip\<close>, \<open>str.lower\<close>); characters above 127 belong to none of them.
\<close>

definition is_digit :: "char \<Rightarrow> bool" where
  "is_digit c = (c \<in> set ''0123456789'')"

definition is_upper :: "char \<Rightarrow> bool" where
  "is_upper c = (c \<in> set ''ABCDEFGHIJKLMNOPQRSTUVWXYZ'')"

definition is_lower :: "char \<Rightarrow> bool" where
  "is_lower c = (c \<in> set ''abcdefghijklmnopqrstuvwxyz'')"

text \<open>The ASCII white space: the characters 9 to 13 and 28 to 32.\<close>

definition is_space :: "char \<Rightarrow> bool" where
  "is_space c =
     (c \<in> set [CHR 0x09, CHR 0x0A, CHR 0x0B, CHR 0x0C, CHR 0x0D,
                CHR 0x1C, CHR 0x1D, CHR 0x1E, CHR 0x1F, CHR 0x20])"

definition char_lower :: "char \<Rightarrow> char" where
  "char_lower c =
     (case map_of (zip ''ABCDEFGHIJKLMNOPQRSTUVWXYZ'' ''abcdefghijklmnopqrstuvwxyz'') c of
        None \<Rightarrow> c
      | Some l \<Rightarrow> l)"

text \<open>\<open>s.lower()\<close>\<close>

definition lower :: "string \<Rightarrow> string" where
  "lower s = map char_lower s"

text \<open>\<open>s.strip()\<close>\<close>

definition strip :: "string \<Rightarrow> string" where
  "strip s = rev (dropWhile is_space (rev (dropWhile is_space s)))"

text \<open>\<open>s.startswith(p)\<close>\<close>

fun startswith :: "string \<Rightarrow> string \<Rightarrow> bool" where
  "startswith s [] = True"
| "startswith [] (p # ps) = False"
| "startswith (c # cs) (p # ps) = (c = p \<and> startswith cs ps)"

text \<open>\<open>sub in s\<close>\<close>

fun str_in :: "string \<Rightarrow> string \<Rightarrow> bool" where
  "str_in sub [] = (sub = [])"
| "str_in sub (c # cs) = (startswith (c # cs) sub \<or> str_in sub cs)"

text \<open>
  \<open>s.replace(old, new)\<close> for a non-empty \<open>old\<close>: the occurrences are replaced from
  left to right without overlap.
\<close>

function str_replace :: "string \<Rightarrow> string \<Rightarrow> string \<Rightarrow> string" where
  "str_replace old new [] = []"
| "str_replace old new (c # cs) =
     (if old \<noteq> [] \<and> startswith (c # cs) old
      then new @ str_replace old new (drop (length old) (c # cs))
      else c # str_replace old new cs)"
  by pat_completeness auto
termination
  by (relation "measure (\<lambda>(old, new, s). length s)") auto

text \<open>\<open>s.split(sep)[0]\<close> and \<open>s.split(sep)[-1]\<close> for a one-character separator.\<close>

definition split_first :: "char \<Rightarrow> string \<Rightarrow> string" where
  "split_first sep s = takeWhile (\<lambda>c. c \<noteq> sep) s"

definition split_last :: "char \<Rightarrow> string \<Rightarrow> string" where
  "split_last sep s = rev (takeWhile (\<lambda>c. c \<noteq> sep) (rev s))"

section \<open>Python floats\<close>

text \<open>
  A finite binary64 value is the real number it denotes. An addition is the exact sum
  rounded to 53 significant bits, ties to even. \<open>ulp\<close> is the spacing of binary64
  values in the binades \<open>[1/2, 1)\<close> and \<open>[1, 2)\<close>, where all sums of
  \<open>compute_confidence\<close> lie.
\<close>

definition round_half_even :: "real \<Rightarrow> int" where
  "round_half_even q =
     (let n = \<lfloor>q\<rfloor>; r = q - of_int n
      in if r < 1 / 2 then n
         else if 1 / 2 < r then n + 1
         else if even n then n else n + 1)"

definition ulp :: "real \<Rightarrow> real" where
  "ulp x = (if x < 1 then 1 / 2 ^ 53 else 1 / 2 ^ 52)"

definition fl :: "real \<Rightarrow> real" where
  "fl x = of_int (round_half_even (x / ulp x)) * ulp x"

definition fadd :: "real \<Rightarrow> real \<Rightarrow> real" where
  "fadd x y = fl (x + y)"

text \<open>
  The binary64 values of the literals \<open>0.5\<close>, \<open>0.3\<close>, \<open>0.1\<close> and \<open>1.0\<close> of the source, and
  of the decimals \<open>0.6\<close> to \<open>0.9\<close>.
\<close>

definition f_0_5 :: real where "f_0_5 = 1 / 2"
definition f_0_3 :: real where "f_0_3 = 5404319552844595 / 2 ^ 54"
definition f_0_1 :: real where "f_0_1 = 3602879701896397 / 2 ^ 55"
definition f_1_0 :: real where "f_1_0 = 1"
definition f_0_6 :: real where "f_0_6 = 5404319552844595 / 2 ^ 53"
definition f_0_7 :: real where "f_0_7 = 3152519739159347 / 2 ^ 52"
definition f_0_8 :: real where "f_0_8 = 3602879701896397 / 2 ^ 52"
definition f_0_9 :: real where "f_0_9 = 8106479329266893 / 2 ^ 53"

section \<open>normalizer.py: the confidence score\<close>

definition compute_confidence :: "string \<Rightarrow> bool \<Rightarrow> string \<Rightarrow> real" where
  "compute_confidence contact_type is_valid source =
     (let base = f_0_5;
          base = (if is_valid then fadd base f_0_3 else base);
          base = (if source \<noteq> [] \<and> (str_in ''mailto:'' source \<or> str_in ''tel:'' source)
                  then fadd base f_0_1 else base);
          base = (if source \<noteq> [] \<and> str_in ''wa.me'' source
                  then fadd base f_0_1 else base)
      in min base f_1_0)"

text \<open>
  The score in the words of the specification, in exact decimal arithmetic: a base of
  0.5, plus 0.3 for a valid contact, plus 0.1 for a \<open>mailto:\<close> or \<open>tel:\<close> source, plus
  0.1 for a \<open>wa.me\<close> source, clamped to 1.
\<close>

definition score_spec :: "bool \<Rightarrow> string \<Rightarrow> real" where
  "score_spec is_valid source =
     min (5 / 10
          + (if is_valid then 3 / 10 else 0)
          + (if str_in ''mailto:'' source \<or> str_in ''tel:'' source then 1 / 10 else 0)
          + (if str_in ''wa.me'' source then 1 / 10 else 0)) 1"

section \<open>Exceptions\<close>

text \<open>
  An exception value stands for an instance of a subclass of Python's \<open>Exception\<close>: the
  two library exceptions the normalizer catches by name, each with its message, and any
  other one with its class name and its message. A function that can raise returns
  \<open>exn + 'a\<close>, with \<open>Inl\<close> for the raise.
\<close>

datatype exn = NumberParseException string | EmailNotValidError string | Error string string

definition is_NumberParseException :: "exn \<Rightarrow> bool" where
  "is_NumberParseException e = (case e of NumberParseException msg \<Rightarrow> True | _ \<Rightarrow> False)"

definition is_EmailNotValidError :: "exn \<Rightarrow> bool" where
  "is_EmailNotValidError e = (case e of EmailNotValidError msg \<Rightarrow> True | _ \<Rightarrow> False)"

section \<open>brave_search.py: the source resolver\<close>

definition SKIP_DOMAINS :: "string list" where
  "SKIP_DOMAINS =
     [''yelp.com'', ''tripadvisor.com'', ''tripadvisor.com.ar'',
      ''google.com'', ''google.com.ar'', ''maps.google.com'',
      ''paginasamarillas.com.ar'', ''paginasamarillas.com'',
      ''yellowpages.com'', ''wikipedia.org'', ''youtube.com'',
      ''guiaoleo.com.ar'', ''restorando.com.ar'']"

text \<open>The dictionary \<open>SOCIAL_DOMAINS\<close>, in its insertion order, which \<open>items()\<close> follows.\<close>

definition SOCIAL_DOMAINS :: "(string \<times> string) list" where
  "SOCIAL_DOMAINS =
     [(''instagram.com'', ''instagram''),
      (''facebook.com'', ''facebook''),
      (''linkedin.com'', ''linkedin''),
      (''twitter.com'', ''twitter''),
      (''x.com'', ''twitter'')]"

text \<open>
  \<open>_extract_domain\<close>. The library call \<open>urlparse(url).hostname\<close> is a parameter: it
  raises, or returns \<open>None\<close> or a host name.
\<close>

type_synonym urlparse_hostname = "string \<Rightarrow> exn + string option"

definition extract_domain :: "urlparse_hostname \<Rightarrow> string \<Rightarrow> string" where
  "extract_domain hostname url =
     (case hostname url of
        Inl e \<Rightarrow> []
      | Inr h \<Rightarrow>
          (let domain = (case h of None \<Rightarrow> [] | Some d \<Rightarrow> d);
               domain = (if startswith domain ''www.'' then drop 4 domain else domain)
           in lower domain))"

text \<open>
  The inner \<open>for\<close> loop over \<open>SOCIAL_DOMAINS.items()\<close>: the type of the first entry whose
  domain is a substring of \<open>domain\<close>; \<open>None\<close> is the \<open>else\<close> branch of the loop.
\<close>

fun social_type :: "(string \<times> string) list \<Rightarrow> string \<Rightarrow> string option" where
  "social_type [] domain = None"
| "social_type ((social_domain, social_type') # items) domain =
     (if str_in social_domain domain then Some social_type'
      else social_type items domain)"

text \<open>A search result is a JSON object; only its string fields matter here.\<close>

type_synonym search_result = "string \<rightharpoonup> string"

definition result_url :: "search_result \<Rightarrow> string" where
  "result_url result = (case result ''url'' of None \<Rightarrow> [] | Some u \<Rightarrow> u)"

record resolved =
  website :: "string option"
  social_urls :: "(string \<times> string) list"
  all_urls :: "string list"

definition empty_resolved :: resolved where
  "empty_resolved = \<lparr>website = None, social_urls = [], all_urls = []\<rparr>"

text \<open>\<open>not website\<close>: \<open>None\<close> and the empty string are false.\<close>

definition not_website :: "string option \<Rightarrow> bool" where
  "not_website w = (w = None \<or> w = Some [])"

text \<open>One iteration of the loop over the results; a pair in \<open>social_urls\<close> is (type, url).\<close>

definition classify_result :: "urlparse_hostname \<Rightarrow> resolved \<Rightarrow> search_result \<Rightarrow> resolved" where
  "classify_result hostname st result =
     (let url = result_url result in
      if url = [] then st
      else
        (let st = st\<lparr>all_urls := all_urls st @ [url]\<rparr>;
             domain = extract_domain hostname url
         in case social_type SOCIAL_DOMAINS domain of
              Some t \<Rightarrow> st\<lparr>social_urls := social_urls st @ [(t, url)]\<rparr>
            | None \<Rightarrow>
                if not_website (website st) \<and> domain \<notin> set SKIP_DOMAINS
                then st\<lparr>website := Some url\<rparr>
                else st))"

text \<open>
  The decoded response body: \<open>data.get("web", {}).get("results", [])\<close>, where either
  key may be absent.
\<close>

type_synonym brave_data = "search_result list option option"

definition data_results :: "brave_data \<Rightarrow> search_result list" where
  "data_results data =
     (case data of None \<Rightarrow> [] | Some None \<Rightarrow> [] | Some (Some results) \<Rightarrow> results)"

text \<open>
  \<open>search_business\<close>. The argument \<open>response\<close> is the outcome of the \<open>try\<close> block: the
  exception of the request, of \<open>raise_for_status\<close> or of the JSON decoding, or the data.
\<close>

definition search_business :: "urlparse_hostname \<Rightarrow> exn + brave_data \<Rightarrow> resolved" where
  "search_business hostname response =
     (case response of
        Inl e \<Rightarrow> empty_resolved
      | Inr data \<Rightarrow> foldl (classify_result hostname) empty_resolved (data_results data))"

text \<open>The non-empty URLs of the results, in result order.\<close>

definition result_urls :: "search_result list \<Rightarrow> string list" where
  "result_urls results = filter (\<lambda>u. u \<noteq> []) (map result_url results)"

text \<open>A website candidate: not classified social, and not on the deny-list.\<close>

definition website_candidate :: "urlparse_hostname \<Rightarrow> string \<Rightarrow> bool" where
  "website_candidate hostname url =
     (social_type SOCIAL_DOMAINS (extract_domain hostname url) = None
      \<and> extract_domain hostname url \<notin> set SKIP_DOMAINS)"

section \<open>Example inputs\<close>

text \<open>
  The host of a URL of the form \<open>https://host/path\<close> with a lower-case host and no
  port or user part, as \<open>urlparse\<close> returns it.
\<close>

definition sample_hostname :: urlparse_hostname where
  "sample_hostname url = Inr (Some (takeWhile (\<lambda>c. c \<noteq> CHR ''/'') (drop 8 url)))"

definition sample_result :: "string \<Rightarrow> search_result" where
  "sample_result url = [''title'' \<mapsto> ''Acme'', ''url'' \<mapsto> url]"

definition sample_data :: brave_data where
  "sample_data = Some (Some
     [sample_result ''https://www.yelp.com/biz/acme'',
      sample_result ''https://www.facebook.com/acme'',
      [''title'' \<mapsto> ''no url''],
      sample_result ''https://www.acme.com.ar/'',
      sample_result ''https://acme-shop.com/contacto''])"

section \<open>normalizer.py: phone and email normalization\<close>

text \<open>
  The calls into the \<open>phonenumbers\<close> library are parameters. \<open>'n\<close> is the type of a
  parsed number; \<open>format_number\<close> is the call with \<open>PhoneNumberFormat.E164\<close>.
\<close>

record 'n phonenumbers =
  parse :: "string \<Rightarrow> string \<Rightarrow> exn + 'n"
  is_valid_number :: "'n \<Rightarrow> exn + bool"
  format_number :: "'n \<Rightarrow> exn + string"

text \<open>The cleaning of the raw phone string: trimmed, with spaces, dashes and dots removed.\<close>

definition clean_phone :: "string \<Rightarrow> string" where
  "clean_phone raw =
     str_replace ''.'' [] (str_replace ''-'' [] (str_replace '' '' [] (strip raw)))"

text \<open>The body of the \<open>try\<close> block of \<open>normalize_phone\<close>.\<close>

definition parse_and_format :: "'n phonenumbers \<Rightarrow> string \<Rightarrow> string \<Rightarrow> exn + string \<times> bool" where
  "parse_and_format lib cleaned default_region =
     (case parse lib cleaned default_region of
        Inl e \<Rightarrow> Inl e
      | Inr parsed \<Rightarrow>
          (case is_valid_number lib parsed of
             Inl e \<Rightarrow> Inl e
           | Inr is_valid \<Rightarrow>
               (case format_number lib parsed of
                  Inl e \<Rightarrow> Inl e
                | Inr normalized \<Rightarrow> Inr (normalized, is_valid))))"

text \<open>
  \<open>normalize_phone\<close>: the handler catches \<open>NumberParseException\<close> only, any other
  exception leaves the function.
\<close>

definition normalize_phone :: "'n phonenumbers \<Rightarrow> string \<Rightarrow> string \<Rightarrow> exn + string \<times> bool" where
  "normalize_phone lib raw default_region =
     (let cleaned = clean_phone raw
      in case parse_and_format lib cleaned default_region of
           Inr r \<Rightarrow> Inr r
         | Inl e \<Rightarrow>
             if is_NumberParseException e then Inr (strip raw, False) else Inl e)"

text \<open>
  \<open>normalize_email\<close>. The parameter \<open>validate_email\<close> is the library call with
  \<open>check_deliverability=False\<close>; it returns the \<open>normalized\<close> field of its result.
\<close>

definition normalize_email :: "(string \<Rightarrow> exn + string) \<Rightarrow> string \<Rightarrow> exn + string \<times> bool" where
  "normalize_email validate_email raw =
     (case validate_email (strip raw) of
        Inr normalized \<Rightarrow> Inr (normalized, True)
      | Inl e \<Rightarrow>
          if is_EmailNotValidError e then Inr (lower (strip raw), False) else Inl e)"

definition normalize_whatsapp :: "'n phonenumbers \<Rightarrow> string \<Rightarrow> string \<Rightarrow> exn + string \<times> bool" where
  "normalize_whatsapp lib raw default_region = normalize_phone lib raw default_region"


section \<open>Example library behaviour\<close>

text \<open>
  A stand-in for the phone library: a number parses when it is a non-empty string of
  digits and plus signs, is valid when it has at least ten characters, and is formatted
  with a leading plus sign. The stand-in for the email validator accepts the strings with
  an at sign and lower-cases them.
\<close>

definition sample_phonenumbers :: "string phonenumbers" where
  "sample_phonenumbers =
     \<lparr>parse = (\<lambda>s region.
         if s \<noteq> [] \<and> list_all (\<lambda>c. is_digit c \<or> c = CHR ''+'') s
         then Inr s else Inl (NumberParseException ''not a number'')),
      is_valid_number = (\<lambda>n. Inr (10 \<le> length n)),
      format_number = (\<lambda>n. Inr (if startswith n ''+'' then n else CHR ''+'' # n))\<rparr>"

definition sample_validate_email :: "string \<Rightarrow> exn + string" where
  "sample_validate_email s =
     (if CHR ''@'' \<in> set s then Inr (lower s)
      else Inl (EmailNotValidError ''no at sign''))"

section \<open>Regular expressions\<close>

text \<open>
  The patterns of \<open>scraper.py\<close> use character classes, literal text, sequence,
  alternation, the greedy option \<open>r?\<close> and greedy repetition of a character class,
  \<open>[..]{m,n}\<close> (with \<open>+\<close> as \<open>{1,}\<close>).
\<close>

datatype regex =
    Cls "char \<Rightarrow> bool"
  | Str string
  | Seq regex regex
  | Alt regex regex
  | Opt regex
  | Rep "char \<Rightarrow> bool" nat "nat option"

text \<open>
  The backtracking matcher of Python's \<open>re\<close>: \<open>rmatch r s\<close> lists, for every way \<open>r\<close> can
  match at the start of \<open>s\<close>, the rest of \<open>s\<close> after the match, in the order in which
  backtracking tries them. A greedy option tries its operand first, a greedy repetition
  the longest run first. The match that \<open>re\<close> reports is the first of the list.
\<close>

fun rmatch :: "regex \<Rightarrow> string \<Rightarrow> string list" where
  "rmatch (Cls p) s = (case s of [] \<Rightarrow> [] | c # cs \<Rightarrow> if p c then [cs] else [])"
| "rmatch (Str w) s = (if startswith s w then [drop (length w) s] else [])"
| "rmatch (Seq a b) s = concat (map (rmatch b) (rmatch a s))"
| "rmatch (Alt a b) s = rmatch a s @ rmatch b s"
| "rmatch (Opt a) s = rmatch a s @ [s]"
| "rmatch (Rep p m n) s =
     (let k = length (takeWhile p s);
          hi = (case n of None \<Rightarrow> k | Some n' \<Rightarrow> min k n')
      in map (\<lambda>j. drop j s) (rev [m..<Suc hi]))"


text \<open>
  \<open>pattern.findall(s)\<close> for a pattern without groups, and \<open>pattern.search(s)\<close>: the
  scan goes from left to right and resumes after each match. The patterns of this
  program match no empty string; an empty match is passed over.
\<close>

function findall :: "regex \<Rightarrow> string \<Rightarrow> string list" where
  "findall r s =
     (case rmatch r s of
        [] \<Rightarrow> (case s of [] \<Rightarrow> [] | c # cs \<Rightarrow> findall r cs)
      | rest # others \<Rightarrow>
          if length rest < length s
          then take (length s - length rest) s # findall r rest
          else (case s of [] \<Rightarrow> [] | c # cs \<Rightarrow> findall r cs))"
  by pat_completeness auto
termination
  by (relation "measure (\<lambda>(r, s). length s)") auto

text \<open>
  A pattern \<open>pre(grp)\<close> whose only group is its last part: \<open>gmatch\<close> lists the
  text of the group and the rest for every way to match, \<open>search_group\<close> is group 1 of
  \<open>pattern.search(s)\<close>, and \<open>finditer_group\<close> lists group 1 of every match of
  \<open>pattern.finditer(s)\<close>.
\<close>

definition gmatch :: "regex \<Rightarrow> regex \<Rightarrow> string \<Rightarrow> (string \<times> string) list" where
  "gmatch pre grp s =
     concat (map (\<lambda>s'. map (\<lambda>rest. (take (length s' - length rest) s', rest))
                          (rmatch grp s'))
                 (rmatch pre s))"

fun search_group :: "regex \<Rightarrow> regex \<Rightarrow> string \<Rightarrow> string option" where
  "search_group pre grp [] =
     (case gmatch pre grp [] of [] \<Rightarrow> None | (g, rest) # others \<Rightarrow> Some g)"
| "search_group pre grp (c # cs) =
     (case gmatch pre grp (c # cs) of
        [] \<Rightarrow> search_group pre grp cs
      | (g, rest) # others \<Rightarrow> Some g)"

function finditer_group :: "regex \<Rightarrow> regex \<Rightarrow> string \<Rightarrow> string list" where
  "finditer_group pre grp s =
     (case gmatch pre grp s of
        [] \<Rightarrow> (case s of [] \<Rightarrow> [] | c # cs \<Rightarrow> finditer_group pre grp cs)
      | (g, rest) # others \<Rightarrow>
          if length rest < length s
          then g # finditer_group pre grp rest
          else (case s of [] \<Rightarrow> [] | c # cs \<Rightarrow> finditer_group pre grp cs))"
  by pat_completeness auto
termination
  by (relation "measure (\<lambda>(p, g, s). length s)") auto

section \<open>scraper.py: the contact extractor\<close>

definition is_alpha :: "char \<Rightarrow> bool" where
  "is_alpha c = (is_lower c \<or> is_upper c)"

text \<open>\<open>[a-zA-Z0-9._%+\-]+@[a-zA-Z0-9.\-]+\.[a-zA-Z]{2,}\<close>\<close>

definition EMAIL_REGEX :: regex where
  "EMAIL_REGEX =
     Seq (Rep (\<lambda>c. is_alpha c \<or> is_digit c \<or> c \<in> set ''._%+-'') 1 None)
    (Seq (Str ''@'')
    (Seq (Rep (\<lambda>c. is_alpha c \<or> is_digit c \<or> c \<in> set ''.-'') 1 None)
    (Seq (Str ''.'')
         (Rep is_alpha 2 None))))"

text \<open>\<open>(?:\+?54\s?9?\s?)?(?:\(?\d{2,4}\)?\s?[\-.]?\s?)?\d{4}\s?[\-.]?\s?\d{4}\<close>\<close>

definition PHONE_REGEX_AR :: regex where
  "PHONE_REGEX_AR =
     Seq (Opt (Seq (Opt (Str ''+'')) (Seq (Str ''54'') (Seq (Opt (Cls is_space))
               (Seq (Opt (Str ''9'')) (Opt (Cls is_space)))))))
    (Seq (Opt (Seq (Opt (Str ''('')) (Seq (Rep is_digit 2 (Some 4)) (Seq (Opt (Str '')''))
               (Seq (Opt (Cls is_space)) (Seq (Opt (Cls (\<lambda>c. c \<in> set ''-.'')))
                    (Opt (Cls is_space))))))))
    (Seq (Rep is_digit 4 (Some 4))
    (Seq (Opt (Cls is_space))
    (Seq (Opt (Cls (\<lambda>c. c \<in> set ''-.'')))
    (Seq (Opt (Cls is_space))
         (Rep is_digit 4 (Some 4)))))))"

text \<open>
  \<open>(?:wa\.me/|api\.whatsapp\.com/send\?phone=)\+?(\d{10,15})\<close>, as the part before the
  group and the group.
\<close>

definition WHATSAPP_LINK_PREFIX :: regex where
  "WHATSAPP_LINK_PREFIX =
     Seq (Alt (Str ''wa.me/'') (Str ''api.whatsapp.com/send?phone='')) (Opt (Str ''+''))"

definition WHATSAPP_LINK_GROUP :: regex where
  "WHATSAPP_LINK_GROUP = Rep is_digit 10 (Some 15)"

definition JUNK_EMAIL_DOMAINS :: "string list" where
  "JUNK_EMAIL_DOMAINS =
     [''example.com'', ''sentry.io'', ''wixpress.com'', ''w3.org'',
      ''schema.org'', ''googleapis.com'', ''googletagmanager.com'']"

definition is_junk_email :: "string \<Rightarrow> bool" where
  "is_junk_email email =
     (let domain = lower (split_last (CHR ''@'') email)
      in domain \<in> set JUNK_EMAIL_DOMAINS)"

text \<open>
  A Python set of strings is modelled by the list of its members, without duplicates,
  in the order of insertion. The order in which Python iterates over a set follows
  the hashes of the members, which the program does not control: \<open>list(s)\<close> is the
  members sorted by an arbitrary key \<open>h\<close>, so that every order of the members is the
  result for some \<open>h\<close>.
\<close>

definition set_add :: "string list \<Rightarrow> string \<Rightarrow> string list" where
  "set_add s x = (if x \<in> set s then s else s @ [x])"

definition py_set :: "string list \<Rightarrow> string list" where
  "py_set xs = foldl set_add [] xs"

definition set_union :: "string list \<Rightarrow> string list \<Rightarrow> string list" where
  "set_union a b = foldl set_add a b"

definition list_of_set :: "(string \<Rightarrow> nat) \<Rightarrow> string list \<Rightarrow> string list" where
  "list_of_set h s = sort_key h s"

text \<open>
  A parsed document: the text \<open>get_text(separator=" ")\<close> returns, and the \<open>href\<close>
  attributes of the \<open>a\<close> tags that have one, in document order.
\<close>

record soup =
  get_text :: string
  a_hrefs :: "string list"

record http_response =
  status_code :: nat
  content_type :: "string option"
  response_text :: string

text \<open>
  The environment of \<open>scrape_url\<close>: the outcome of the request (with \<open>response.text\<close>),
  the two parsers of \<open>BeautifulSoup\<close>, and the key of the iteration order of sets.
\<close>

record scrape_env =
  http_get :: "string \<Rightarrow> exn + http_response"
  bs_lxml :: "string \<Rightarrow> exn + soup"
  bs_html_parser :: "string \<Rightarrow> exn + soup"
  set_order :: "string \<Rightarrow> nat"

record contacts =
  emails :: "string list"
  phones :: "string list"
  whatsapps :: "string list"

definition empty_contacts :: contacts where
  "empty_contacts = \<lparr>emails = [], phones = [], whatsapps = []\<rparr>"

text \<open>\<open>find_all("a", href=re.compile(r"^scheme", re.I))\<close>: the prefix is matched without regard to case.\<close>

definition hrefs_with_scheme :: "string \<Rightarrow> soup \<Rightarrow> string list" where
  "hrefs_with_scheme scheme sp =
     filter (\<lambda>href. startswith (lower href) scheme) (a_hrefs sp)"

text \<open>The set \<open>raw_emails\<close> after the loop over the \<open>mailto:\<close> links.\<close>

definition raw_emails :: "soup \<Rightarrow> string list" where
  "raw_emails sp =
     foldl (\<lambda>acc a_href.
              (let href = strip (split_first (CHR ''?'') (str_replace ''mailto:'' [] a_href))
               in if str_in ''@'' href then set_add acc href else acc))
           (py_set (findall EMAIL_REGEX (get_text sp)))
           (hrefs_with_scheme ''mailto:'' sp)"

definition scrape_emails :: "(string \<Rightarrow> nat) \<Rightarrow> soup \<Rightarrow> string list" where
  "scrape_emails h sp =
     filter (\<lambda>e. \<not> is_junk_email e) (take 5 (list_of_set h (raw_emails sp)))"

text \<open>\<open>re.sub(r"[^\d+]", "", p)\<close>\<close>

definition digits_and_plus :: "string \<Rightarrow> string" where
  "digits_and_plus p = filter (\<lambda>c. is_digit c \<or> c = CHR ''+'') p"

definition tel_phones :: "soup \<Rightarrow> string list" where
  "tel_phones sp =
     foldl (\<lambda>acc a_href.
              (let phone = strip (str_replace ''tel:'' [] a_href);
                   phone = digits_and_plus phone
               in if phone \<noteq> [] \<and> 8 \<le> length phone then set_add acc phone else acc))
           [] (hrefs_with_scheme ''tel:'' sp)"

definition text_phones :: "soup \<Rightarrow> string list" where
  "text_phones sp = py_set (findall PHONE_REGEX_AR (get_text sp))"

definition cleaned_phones :: "(string \<Rightarrow> nat) \<Rightarrow> soup \<Rightarrow> string list" where
  "cleaned_phones h sp =
     foldl (\<lambda>acc p.
              (let clean = digits_and_plus p
               in if 8 \<le> length clean then set_add acc clean else acc))
           [] (list_of_set h (text_phones sp))"

definition scrape_phones :: "(string \<Rightarrow> nat) \<Rightarrow> soup \<Rightarrow> string list" where
  "scrape_phones h sp =
     take 5 (list_of_set h (set_union (tel_phones sp) (cleaned_phones h sp)))"

definition scrape_whatsapps :: "(string \<Rightarrow> nat) \<Rightarrow> soup \<Rightarrow> string \<Rightarrow> string list" where
  "scrape_whatsapps h sp html =
     (let whatsapps =
            foldl (\<lambda>acc href.
                     (case search_group WHATSAPP_LINK_PREFIX WHATSAPP_LINK_GROUP href of
                        None \<Rightarrow> acc
                      | Some g \<Rightarrow> set_add acc g))
                  [] (a_hrefs sp);
          whatsapps =
            foldl set_add whatsapps
                  (finditer_group WHATSAPP_LINK_PREFIX WHATSAPP_LINK_GROUP html)
      in take 3 (list_of_set h whatsapps))"

text \<open>The part of \<open>scrape_url\<close> after the document has been parsed.\<close>

definition extract_contacts :: "(string \<Rightarrow> nat) \<Rightarrow> soup \<Rightarrow> string \<Rightarrow> contacts" where
  "extract_contacts h sp html =
     \<lparr>emails = scrape_emails h sp,
      phones = scrape_phones h sp,
      whatsapps = scrape_whatsapps h sp html\<rparr>"

text \<open>
  The two calls of \<open>BeautifulSoup\<close>: when the \<open>lxml\<close> parser raises, the document is
  parsed with \<open>html.parser\<close>, whose exception is not caught.
\<close>

definition parse_html :: "scrape_env \<Rightarrow> string \<Rightarrow> exn + soup" where
  "parse_html env html =
     (case bs_lxml env html of
        Inl e \<Rightarrow> bs_html_parser env html
      | Inr sp \<Rightarrow> Inr sp)"

definition scrape_url :: "scrape_env \<Rightarrow> string \<Rightarrow> exn + contacts" where
  "scrape_url env url =
     (case http_get env url of
        Inl e \<Rightarrow> Inr empty_contacts
      | Inr response \<Rightarrow>
          if status_code response \<noteq> 200 then Inr empty_contacts
          else
            (let content_type' = (case content_type response of None \<Rightarrow> [] | Some c \<Rightarrow> c)
             in if \<not> str_in ''text/html'' content_type'
                   \<and> \<not> str_in ''application/xhtml'' content_type'
                then Inr empty_contacts
                else
                  (let html = response_text response
                   in case parse_html env html of
                        Inl e \<Rightarrow> Inl e
                      | Inr sp \<Rightarrow> Inr (extract_contacts (set_order env) sp html))))"

text \<open>The test on the content type, as a predicate on the header.\<close>

definition html_content_type :: "string option \<Rightarrow> bool" where
  "html_content_type header =
     (let content_type' = (case header of None \<Rightarrow> [] | Some c \<Rightarrow> c)
      in str_in ''text/html'' content_type' \<or> str_in ''application/xhtml'' content_type')"


section \<open>Example pages\<close>

text \<open>
  An environment with one outcome for the request and for each parser, whatever the
  URL, and with the members of a set listed in insertion order.
\<close>

definition sample_env :: "exn + http_response \<Rightarrow> exn + soup \<Rightarrow> exn + soup \<Rightarrow> scrape_env" where
  "sample_env fetched lxml html_parser =
     \<lparr>http_get = (\<lambda>url. fetched), bs_lxml = (\<lambda>html. lxml),
      bs_html_parser = (\<lambda>html. html_parser), set_order = (\<lambda>s. 0)\<rparr>"

definition html_response :: "string \<Rightarrow> http_response" where
  "html_response html =
     \<lparr>status_code = 200, content_type = Some ''text/html; charset=utf-8'',
      response_text = html\<rparr>"

definition pdf_response :: http_response where
  "pdf_response =
     \<lparr>status_code = 200, content_type = Some ''application/pdf'', response_text = ''%PDF-1.7''\<rparr>"

definition not_found_response :: http_response where
  "not_found_response =
     \<lparr>status_code = 404, content_type = Some ''text/html'', response_text = ''<html/>''\<rparr>"

definition six_emails_page :: soup where
  "six_emails_page =
     \<lparr>get_text = ''noreply@sentry.io ventas@acme.com info@acme.com rrhh@acme.com compras@acme.com soporte@acme.com'',
      a_hrefs = []\<rparr>"


definition contact_page :: soup where
  "contact_page = \<lparr>get_text = ''Escribinos a info@acme.com'', a_hrefs = []\<rparr>"

section \<open>main.py: the job coordinator\<close>

record business =
  business_id :: string
  name :: string
  locality :: string
  provincia :: "string option"
  existing_website :: "string option"
  existing_phone :: "string option"
  existing_email :: "string option"



record job_update =
  upd_status :: "string option"
  upd_error :: "string option"
  upd_processed :: nat
  upd_finished_at :: bool




text \<open>
  The environment of the coordinator: whether the \<open>supabase\<close> client is configured,
  the orchestrator (\<open>enrich_single_business\<close>), which returns the store it leaves and
  the exception it raised, if any, and the exception, if any, of an update of the job row.
\<close>

record 's worker_env =
  supabase :: bool
  orchestrator :: "string \<Rightarrow> business \<Rightarrow> 's \<Rightarrow> 's \<times> exn option"
  job_update_raises :: "job_update \<Rightarrow> exn option"










section \<open>main.py: the enrichment orchestrator\<close>

text \<open>The rows of the tables \<open>lead_sources\<close> and \<open>lead_contacts\<close>.\<close>

record lead_source =
  ls_search_id :: string
  ls_business_id :: string
  ls_source_type :: string
  ls_url :: string
  ls_domain :: string

record lead_contact =
  lc_search_id :: string
  lc_business_id :: string
  lc_contact_type :: string
  lc_raw_value :: string
  lc_normalized_value :: string
  lc_is_valid :: bool
  lc_confidence :: real
  lc_source_url :: string

record database =
  lead_sources :: "lead_source list"
  lead_contacts :: "lead_contact list"

text \<open>
  The environment of the orchestrator: whether the \<open>supabase\<close> client is configured,
  the host names of URLs, the outcome of the search request for a query, the
  environment of \<open>scrape_url\<close>, the two libraries of the normalizer, and whether the
  insert of a source or the upsert of a contact raises.
\<close>

record 'n orchestrator_env =
  db_configured :: bool
  hostname_of :: urlparse_hostname
  brave_response :: "string \<Rightarrow> exn + brave_data"
  scraper :: scrape_env
  phone_library :: "'n phonenumbers"
  email_library :: "string \<Rightarrow> exn + string"
  insert_raises :: "lead_source \<Rightarrow> bool"
  upsert_raises :: "lead_contact \<Rightarrow> bool"

text \<open>\<open>_store_source\<close>: an exception of the insert is caught and logged.\<close>

definition store_source ::
  "'n orchestrator_env \<Rightarrow> string \<Rightarrow> string \<Rightarrow> string \<Rightarrow> string \<Rightarrow> database \<Rightarrow> database" where
  "store_source env sid bid source_type url db =
     (if \<not> db_configured env then db
      else
        (let row = \<lparr>ls_search_id = sid, ls_business_id = bid, ls_source_type = source_type,
                      ls_url = url, ls_domain = extract_domain (hostname_of env) url\<rparr>
         in if insert_raises env row then db
            else db\<lparr>lead_sources := lead_sources db @ [row]\<rparr>))"

text \<open>
  \<open>_store_contact\<close>: an upsert that ignores a row in conflict with a stored one on
  business, contact type and normalized value; an exception is caught and logged.
\<close>

definition conflicts :: "lead_contact \<Rightarrow> lead_contact \<Rightarrow> bool" where
  "conflicts a b =
     (lc_business_id a = lc_business_id b \<and> lc_contact_type a = lc_contact_type b
      \<and> lc_normalized_value a = lc_normalized_value b)"

definition store_contact ::
  "'n orchestrator_env \<Rightarrow> string \<Rightarrow> string \<Rightarrow> string \<Rightarrow> string \<Rightarrow> string \<Rightarrow> bool \<Rightarrow> real
     \<Rightarrow> string \<Rightarrow> database \<Rightarrow> database" where
  "store_contact env sid bid contact_type raw_value normalized_value is_valid confidence
       source_url db =
     (if \<not> db_configured env then db
      else
        (let row = \<lparr>lc_search_id = sid, lc_business_id = bid, lc_contact_type = contact_type,
                      lc_raw_value = raw_value, lc_normalized_value = normalized_value,
                      lc_is_valid = is_valid, lc_confidence = confidence,
                      lc_source_url = source_url\<rparr>
         in if upsert_raises env row then db
            else if list_ex (conflicts row) (lead_contacts db) then db
            else db\<lparr>lead_contacts := lead_contacts db @ [row]\<rparr>))"

text \<open>
  One of the three loops over the contacts of a page: each raw value is normalized,
  scored and stored. An exception of the normalizer ends the loop; the rows stored
  before it stay.
\<close>

fun store_contacts ::
  "'n orchestrator_env \<Rightarrow> (string \<Rightarrow> exn + string \<times> bool) \<Rightarrow> string \<Rightarrow> string \<Rightarrow> string
     \<Rightarrow> string \<Rightarrow> string list \<Rightarrow> database \<Rightarrow> database \<times> exn option" where
  "store_contacts env normalizer sid bid contact_type url [] db = (db, None)"
| "store_contacts env normalizer sid bid contact_type url (raw # raws) db =
     (case normalizer raw of
        Inl e \<Rightarrow> (db, Some e)
      | Inr (normalized, is_valid) \<Rightarrow>
          (let confidence = compute_confidence contact_type is_valid url
           in store_contacts env normalizer sid bid contact_type url raws
                (store_contact env sid bid contact_type raw normalized is_valid confidence
                   url db)))"

text \<open>
  The body of the loop over the URLs to scrape: every exception in it is caught and
  logged, and the next URL follows.
\<close>

definition scrape_and_store ::
  "'n orchestrator_env \<Rightarrow> string \<Rightarrow> string \<Rightarrow> database \<Rightarrow> string \<Rightarrow> database" where
  "scrape_and_store env sid bid db url =
     (case scrape_url (scraper env) url of
        Inl e \<Rightarrow> db
      | Inr found \<Rightarrow>
          (case store_contacts env (normalize_email (email_library env)) sid bid ''email'' url
                  (emails found) db of
             (db, Some e) \<Rightarrow> db
           | (db, None) \<Rightarrow>
               (case store_contacts env (\<lambda>raw. normalize_phone (phone_library env) raw ''AR'')
                       sid bid ''phone'' url (phones found) db of
                  (db, Some e) \<Rightarrow> db
                | (db, None) \<Rightarrow>
                    fst (store_contacts env
                           (\<lambda>raw. normalize_whatsapp (phone_library env) raw ''AR'')
                           sid bid ''whatsapp'' url (whatsapps found) db))))"

text \<open>
  \<open>enrich_single_business\<close>, on the database, with the exception that leaves it: none,
  since every call that can raise is inside a handler.
\<close>

definition enrich_single_business ::
  "'n orchestrator_env \<Rightarrow> string \<Rightarrow> business \<Rightarrow> database \<Rightarrow> database \<times> exn option" where
  "enrich_single_business env sid b db =
     (if \<not> db_configured env then (db, None)
      else
        (let brave_results =
               search_business (hostname_of env)
                 (brave_response env (name b @ '' '' @ locality b));
             found_website = (case website brave_results of None \<Rightarrow> [] | Some w \<Rightarrow> w);
             db = (if found_website \<noteq> []
                   then store_source env sid (business_id b) ''website'' found_website db
                   else db);
             urls_to_scrape = (if found_website \<noteq> [] then [found_website] else []);
             db = foldl (\<lambda>db social.
                           store_source env sid (business_id b) (fst social) (snd social) db)
                        db (social_urls brave_results);
             existing = (case existing_website b of None \<Rightarrow> [] | Some w \<Rightarrow> w);
             urls_to_scrape =
               (if existing \<noteq> [] then
                  (let existing_domain = extract_domain (hostname_of env) existing;
                       brave_domain = extract_domain (hostname_of env) found_website
                   in if existing_domain \<noteq> [] \<and> existing_domain \<noteq> brave_domain
                      then urls_to_scrape @ [existing]
                      else urls_to_scrape)
                else urls_to_scrape);
             db = foldl (scrape_and_store env sid (business_id b)) db (take 3 urls_to_scrape)
         in (db, None)))"

text \<open>
  \<open>process_enrichment\<close> calls \<open>enrich_single_business\<close>: the environment of the
  coordinator for an environment of the orchestrator.
\<close>

definition worker ::
  "'n orchestrator_env \<Rightarrow> (job_update \<Rightarrow> exn option) \<Rightarrow> database worker_env" where
  "worker env update_raises =
     \<lparr>supabase = db_configured env, orchestrator = enrich_single_business env,
      job_update_raises = update_raises\<rparr>"

text \<open>
  Every contact row of \<open>db\<close> is a row of \<open>db0\<close> or carries a confidence of at least
  0.5.
\<close>

definition new_rows_scored :: "database \<Rightarrow> database \<Rightarrow> bool" where
  "new_rows_scored db0 db =
     (\<forall>c \<in> set (lead_contacts db). c \<in> set (lead_contacts db0) \<or> f_0_5 \<le> lc_confidence c)"

section \<open>Example batch\<close>

text \<open>
  Three businesses; the orchestrator records the identifier of a business in the
  store, and raises for the second one before it records anything.
\<close>

definition sample_business :: "string \<Rightarrow> business" where
  "sample_business i =
     \<lparr>business_id = i, name = ''Acme '' @ i, locality = ''Rosario'', provincia = None,
      existing_website = None, existing_phone = None, existing_email = None\<rparr>"




text \<open>
  An orchestrator whose search returns the example results and whose pages all read
  as the contact page, on an empty database.
\<close>

definition sample_orchestrator_env :: "string orchestrator_env" where
  "sample_orchestrator_env =
     \<lparr>db_configured = True, hostname_of = sample_hostname,
      brave_response = (\<lambda>query. Inr sample_data),
      scraper = sample_env (Inr (html_response ''<html/>'')) (Inr contact_page)
                  (Inr contact_page),
      phone_library = sample_phonenumbers, email_library = sample_validate_email,
      insert_raises = (\<lambda>row. False), upsert_raises = (\<lambda>row. False)\<rparr>"

definition empty_database :: database where
  "empty_database = \<lparr>lead_sources = [], lead_contacts = []\<rparr>"

section \<open>Facts about the float sums\<close>

lemmas float_defs = fl_def ulp_def round_half_even_def Let_def
  f_0_1_def f_0_3_def f_0_5_def f_0_6_def f_0_7_def f_0_8_def f_0_9_def f_1_0_def

lemma fadd_valid: "fadd f_0_5 f_0_3 = f_0_8"
  by (simp add: fadd_def float_defs)

lemma fadd_link: "fadd f_0_5 f_0_1 = f_0_6"
  by (simp add: fadd_def float_defs)

lemma fadd_link_link: "fadd f_0_6 f_0_1 = f_0_7"
  by (simp add: fadd_def float_defs)

lemma fadd_valid_link: "fadd f_0_8 f_0_1 = f_0_9"
  by (simp add: fadd_def float_defs)

lemma fadd_valid_link_link: "fadd f_0_9 f_0_1 = f_1_0"
  by (simp add: fadd_def float_defs)

lemma fl_decimals:
  "fl (5 / 10) = f_0_5" "fl (6 / 10) = f_0_6" "fl (7 / 10) = f_0_7"
  "fl (8 / 10) = f_0_8" "fl (9 / 10) = f_0_9" "fl 1 = f_1_0"
  by (simp_all add: float_defs)

lemma float_order:
  "f_0_5 \<le> f_0_6" "f_0_6 \<le> f_0_7" "f_0_7 \<le> f_0_8" "f_0_8 \<le> f_0_9" "f_0_9 \<le> f_1_0"
  "0 \<le> f_0_5"
  by (simp_all add: float_defs)

lemma compute_confidence_cases:
  "compute_confidence ct v s =
     (if v then
        (if str_in ''mailto:'' s \<or> str_in ''tel:'' s
         then (if str_in ''wa.me'' s then f_1_0 else f_0_9)
         else (if str_in ''wa.me'' s then f_0_9 else f_0_8))
      else
        (if str_in ''mailto:'' s \<or> str_in ''tel:'' s
         then (if str_in ''wa.me'' s then f_0_7 else f_0_6)
         else (if str_in ''wa.me'' s then f_0_6 else f_0_5)))"
proof -
  have nonempty: "str_in sub s \<Longrightarrow> sub \<noteq> [] \<Longrightarrow> s \<noteq> []" for sub
    by (cases s) simp_all
  have below: "min f_0_5 f_1_0 = f_0_5" "min f_0_6 f_1_0 = f_0_6" "min f_0_7 f_1_0 = f_0_7"
    "min f_0_8 f_1_0 = f_0_8" "min f_0_9 f_1_0 = f_0_9"
    using float_order by simp_all
  have guard: "(s \<noteq> [] \<and> P) = P" if "P \<Longrightarrow> s \<noteq> []" for P
    using that by blast
  have g1: "(s \<noteq> [] \<and> (str_in ''mailto:'' s \<or> str_in ''tel:'' s))
            = (str_in ''mailto:'' s \<or> str_in ''tel:'' s)"
    by (rule guard) (auto dest: nonempty)
  have g2: "(s \<noteq> [] \<and> str_in ''wa.me'' s) = str_in ''wa.me'' s"
    by (rule guard) (auto dest: nonempty)
  show ?thesis
    unfolding compute_confidence_def Let_def g1 g2
    by (simp add: fadd_valid fadd_link fadd_link_link fadd_valid_link
        fadd_valid_link_link below)
qed

lemma score_spec_cases:
  "score_spec v s =
     (if v then
        (if str_in ''mailto:'' s \<or> str_in ''tel:'' s
         then (if str_in ''wa.me'' s then 1 else 9 / 10)
         else (if str_in ''wa.me'' s then 9 / 10 else 8 / 10))
      else
        (if str_in ''mailto:'' s \<or> str_in ''tel:'' s
         then (if str_in ''wa.me'' s then 7 / 10 else 6 / 10)
         else (if str_in ''wa.me'' s then 6 / 10 else 5 / 10)))"
  by (simp add: score_spec_def)

lemma fl_score_spec:
  "fl (score_spec v s) =
     (if v then
        (if str_in ''mailto:'' s \<or> str_in ''tel:'' s
         then (if str_in ''wa.me'' s then f_1_0 else f_0_9)
         else (if str_in ''wa.me'' s then f_0_9 else f_0_8))
      else
        (if str_in ''mailto:'' s \<or> str_in ''tel:'' s
         then (if str_in ''wa.me'' s then f_0_7 else f_0_6)
         else (if str_in ''wa.me'' s then f_0_6 else f_0_5)))"
  unfolding score_spec_cases
  by (simp only: fl_decimals if_distrib [of fl])

section \<open>Claims about the confidence score\<close>

text \<open>
  C2: for every contact type, validity flag and source, \<open>compute_confidence\<close> returns
  the binary64 value of 0.5 plus 0.3 if valid, plus 0.1 if the source contains
  \<open>mailto:\<close> or \<open>tel:\<close>, plus 0.1 if it contains \<open>wa.me\<close>, clamped to 1.0; the result
  lies in [0, 1]; and a valid contact whose source has \<open>mailto:\<close> or \<open>tel:\<close> and no
  \<open>wa.me\<close> scores exactly the float 0.9.
\<close>

theorem compute_confidence_score:
  "compute_confidence ct v s = fl (score_spec v s)
   \<and> 0 \<le> compute_confidence ct v s \<and> compute_confidence ct v s \<le> f_1_0
   \<and> (v \<and> (str_in ''mailto:'' s \<or> str_in ''tel:'' s) \<and> \<not> str_in ''wa.me'' s
        \<longrightarrow> compute_confidence ct v s = f_0_9 \<and> f_0_9 = fl (9 / 10))"
proof -
  have eq: "compute_confidence ct v s = fl (score_spec v s)"
    unfolding compute_confidence_cases fl_score_spec ..
  have range: "0 \<le> compute_confidence ct v s \<and> compute_confidence ct v s \<le> f_1_0"
    unfolding compute_confidence_cases using float_order by auto
  have nine: "v \<and> (str_in ''mailto:'' s \<or> str_in ''tel:'' s) \<and> \<not> str_in ''wa.me'' s
        \<longrightarrow> compute_confidence ct v s = f_0_9 \<and> f_0_9 = fl (9 / 10)"
    unfolding compute_confidence_cases by (simp only: fl_decimals) simp
  from eq range nine show ?thesis by blast
qed

theorem compute_confidence_score_witness:
  "compute_confidence ''email'' True ''mailto:info@acme.com'' = f_0_9
   \<and> str_in ''mailto:'' ''mailto:info@acme.com''
   \<and> \<not> str_in ''wa.me'' ''mailto:info@acme.com''"
  using compute_confidence_score
    [where ct = "''email''" and v = True and s = "''mailto:info@acme.com''"]
  by simp

section \<open>Facts about the source resolver\<close>

lemma skip_not_social:
  "d \<in> set SKIP_DOMAINS \<Longrightarrow> social_type SOCIAL_DOMAINS d = None"
  by (auto simp: SKIP_DOMAINS_def SOCIAL_DOMAINS_def)

lemma social_domain_type:
  "map_of SOCIAL_DOMAINS d = Some t \<Longrightarrow> social_type SOCIAL_DOMAINS d = Some t"
  by (auto simp: SOCIAL_DOMAINS_def split: if_splits)

lemma social_type_first:
  "social_type items d = map_option snd (find (\<lambda>(sd, t). str_in sd d) items)"
  by (induction items) auto

lemma classify_all_urls:
  "all_urls (foldl (classify_result hn) st rs) = all_urls st @ result_urls rs"
  by (induction rs arbitrary: st)
     (auto simp: classify_result_def result_urls_def Let_def split: option.splits)

lemma classify_social_urls:
  "social_urls (foldl (classify_result hn) st rs) =
     social_urls st @
     List.map_filter
       (\<lambda>u. map_option (\<lambda>t. (t, u)) (social_type SOCIAL_DOMAINS (extract_domain hn u)))
       (result_urls rs)"
  by (induction rs arbitrary: st)
     (auto simp: classify_result_def result_urls_def Let_def List.map_filter_simps
           split: option.splits)

lemma classify_result_website:
  "website (classify_result hn st r) =
     (if result_url r \<noteq> [] \<and> not_website (website st) \<and> website_candidate hn (result_url r)
      then Some (result_url r) else website st)"
  by (auto simp: classify_result_def Let_def website_candidate_def split: option.splits)

lemma classify_website:
  "website (foldl (classify_result hn) st rs) =
     (if not_website (website st) then
        (case find (website_candidate hn) (result_urls rs) of
           None \<Rightarrow> website st | Some u \<Rightarrow> Some u)
      else website st)"
proof (induction rs arbitrary: st)
  case Nil
  then show ?case by (simp add: result_urls_def)
next
  case (Cons r rs)
  have urls: "result_urls (r # rs) =
      (if result_url r = [] then result_urls rs else result_url r # result_urls rs)"
    by (simp add: result_urls_def)
  have set: "u \<noteq> [] \<Longrightarrow> \<not> not_website (Some u)" for u
    by (simp add: not_website_def)
  show ?case
    using Cons.IH [of "classify_result hn st r"]
    by (auto simp: classify_result_website urls set split: option.splits)
qed

lemma search_business_website:
  "website (search_business hn (Inr data)) =
     find (website_candidate hn) (result_urls (data_results data))"
  by (simp add: search_business_def classify_website empty_resolved_def not_website_def
        split: option.splits)

lemma search_business_social_urls:
  "social_urls (search_business hn (Inr data)) =
     List.map_filter
       (\<lambda>u. map_option (\<lambda>t. (t, u)) (social_type SOCIAL_DOMAINS (extract_domain hn u)))
       (result_urls (data_results data))"
  by (simp add: search_business_def classify_social_urls empty_resolved_def)

lemma search_business_all_urls:
  "all_urls (search_business hn (Inr data)) = result_urls (data_results data)"
  by (simp add: search_business_def classify_all_urls empty_resolved_def)

lemma in_social_urls:
  "(t, u) \<in> set (social_urls (search_business hn (Inr data))) \<longleftrightarrow>
     u \<in> set (result_urls (data_results data))
     \<and> social_type SOCIAL_DOMAINS (extract_domain hn u) = Some t"
  unfolding search_business_social_urls List.map_filter_def
  by (auto simp: image_iff)

lemma website_is_candidate:
  "website (search_business hn (Inr data)) = Some u \<Longrightarrow>
     website_candidate hn u \<and> u \<in> set (result_urls (data_results data))"
  unfolding search_business_website
  by (auto simp: find_Some_iff)

lemma sample_domains:
  "extract_domain sample_hostname ''https://www.yelp.com/biz/acme'' = ''yelp.com''"
  "extract_domain sample_hostname ''https://www.facebook.com/acme'' = ''facebook.com''"
  "extract_domain sample_hostname ''https://www.acme.com.ar/'' = ''acme.com.ar''"
  "extract_domain sample_hostname ''https://acme-shop.com/contacto'' = ''acme-shop.com''"
  by (simp_all add: extract_domain_def sample_hostname_def lower_def char_lower_def)

lemma sample_data_urls:
  "result_urls (data_results sample_data) =
     [''https://www.yelp.com/biz/acme'', ''https://www.facebook.com/acme'',
      ''https://www.acme.com.ar/'', ''https://acme-shop.com/contacto'']"
  by (simp add: sample_data_def result_urls_def data_results_def result_url_def
      sample_result_def)

section \<open>Claims about the source resolver\<close>

text \<open>
  C3: a result URL whose extracted domain (lower case, leading \<open>www.\<close> removed) is one
  of the known social-platform domains is classified as that platform's type, which is
  the first match in the declared order of \<open>SOCIAL_DOMAINS\<close>; it is listed in
  \<open>social_urls\<close> under that type and no other, and it is never the website.
\<close>

theorem social_url_classified:
  assumes "u \<in> set (result_urls (data_results data))"
    and "map_of SOCIAL_DOMAINS (extract_domain hn u) = Some t"
  shows "social_type SOCIAL_DOMAINS (extract_domain hn u) = Some t
     \<and> social_type SOCIAL_DOMAINS (extract_domain hn u) =
         map_option snd (find (\<lambda>(sd, t). str_in sd (extract_domain hn u)) SOCIAL_DOMAINS)
     \<and> (t, u) \<in> set (social_urls (search_business hn (Inr data)))
     \<and> (\<forall>t'. (t', u) \<in> set (social_urls (search_business hn (Inr data))) \<longrightarrow> t' = t)
     \<and> website (search_business hn (Inr data)) \<noteq> Some u"
proof -
  have ty: "social_type SOCIAL_DOMAINS (extract_domain hn u) = Some t"
    using assms(2) by (rule social_domain_type)
  have "\<not> website_candidate hn u"
    using ty by (simp add: website_candidate_def)
  then have "website (search_business hn (Inr data)) \<noteq> Some u"
    using website_is_candidate by blast
  with ty assms(1) show ?thesis
    by (simp add: in_social_urls social_type_first [symmetric])
qed

theorem social_url_classified_witness:
  "''https://www.instagram.com/acme'' \<in> set (result_urls (data_results (Some (Some
       [sample_result ''https://www.instagram.com/acme'']))))
   \<and> map_of SOCIAL_DOMAINS (extract_domain sample_hostname ''https://www.instagram.com/acme'')
       = Some ''instagram''
   \<and> (''instagram'', ''https://www.instagram.com/acme'')
       \<in> set (social_urls (search_business sample_hostname (Inr (Some (Some
           [sample_result ''https://www.instagram.com/acme''])))))
   \<and> website (search_business sample_hostname (Inr (Some (Some
           [sample_result ''https://www.instagram.com/acme''])))) = None"
proof -
  let ?u = "''https://www.instagram.com/acme''"
  let ?data = "Some (Some [sample_result ?u])"
  have d: "extract_domain sample_hostname ?u = ''instagram.com''"
    by (simp add: extract_domain_def sample_hostname_def lower_def char_lower_def)
  have h1: "?u \<in> set (result_urls (data_results ?data))"
    by (simp add: result_urls_def data_results_def result_url_def sample_result_def)
  have h2: "map_of SOCIAL_DOMAINS (extract_domain sample_hostname ?u) = Some ''instagram''"
    unfolding d by (simp add: SOCIAL_DOMAINS_def)
  have w: "website (search_business sample_hostname (Inr ?data)) = None"
    by (simp add: search_business_def data_results_def classify_result_def result_url_def
        sample_result_def d empty_resolved_def SOCIAL_DOMAINS_def Let_def)
  from social_url_classified [OF h1 h2] h1 h2 w show ?thesis by simp
qed

text \<open>
  C4: the website is the first result URL, in result order, that is neither classified
  social nor deny-listed; for the result order deny-listed, social, website A,
  website B it is A.
\<close>

theorem website_first_candidate:
  "website (search_business hn (Inr data)) =
     find (website_candidate hn) (result_urls (data_results data))
   \<and> (result_urls (data_results data) = [d, s, a, b]
        \<and> extract_domain hn d \<in> set SKIP_DOMAINS
        \<and> social_type SOCIAL_DOMAINS (extract_domain hn s) \<noteq> None
        \<and> website_candidate hn a \<and> website_candidate hn b
      \<longrightarrow> website (search_business hn (Inr data)) = Some a)"
  unfolding search_business_website
  by (auto simp: website_candidate_def)

theorem website_first_candidate_witness:
  "result_urls (data_results sample_data) =
     [''https://www.yelp.com/biz/acme'', ''https://www.facebook.com/acme'',
      ''https://www.acme.com.ar/'', ''https://acme-shop.com/contacto'']
   \<and> extract_domain sample_hostname ''https://www.yelp.com/biz/acme'' \<in> set SKIP_DOMAINS
   \<and> social_type SOCIAL_DOMAINS
        (extract_domain sample_hostname ''https://www.facebook.com/acme'') \<noteq> None
   \<and> website_candidate sample_hostname ''https://www.acme.com.ar/''
   \<and> website_candidate sample_hostname ''https://acme-shop.com/contacto''
   \<and> website (search_business sample_hostname (Inr sample_data))
       = Some ''https://www.acme.com.ar/''"
proof -
  have h: "extract_domain sample_hostname ''https://www.yelp.com/biz/acme'' \<in> set SKIP_DOMAINS
    \<and> social_type SOCIAL_DOMAINS
        (extract_domain sample_hostname ''https://www.facebook.com/acme'') \<noteq> None
    \<and> website_candidate sample_hostname ''https://www.acme.com.ar/''
    \<and> website_candidate sample_hostname ''https://acme-shop.com/contacto''"
    unfolding website_candidate_def sample_domains
    by (simp add: SKIP_DOMAINS_def SOCIAL_DOMAINS_def)
  from website_first_candidate
    [where hn = sample_hostname and data = sample_data
       and d = "''https://www.yelp.com/biz/acme''" and s = "''https://www.facebook.com/acme''"
       and a = "''https://www.acme.com.ar/''" and b = "''https://acme-shop.com/contacto''"]
    sample_data_urls h
  have "website (search_business sample_hostname (Inr sample_data))
       = Some ''https://www.acme.com.ar/''"
    by blast
  with sample_data_urls h show ?thesis by blast
qed

text \<open>
  C5: a URL whose extracted domain is on the deny-list is neither the website nor in
  \<open>social_urls\<close>, and \<open>all_urls\<close> holds every non-empty result URL, deny-listed or
  not, in result order.
\<close>

theorem deny_listed_discarded:
  "all_urls (search_business hn (Inr data)) = result_urls (data_results data)
   \<and> (extract_domain hn u \<in> set SKIP_DOMAINS \<longrightarrow>
        website (search_business hn (Inr data)) \<noteq> Some u
        \<and> (\<forall>t. (t, u) \<notin> set (social_urls (search_business hn (Inr data)))))"
proof -
  have "website (search_business hn (Inr data)) \<noteq> Some u"
    if "extract_domain hn u \<in> set SKIP_DOMAINS"
    using that website_is_candidate [of hn data u] by (auto simp: website_candidate_def)
  moreover have "(t, u) \<notin> set (social_urls (search_business hn (Inr data)))"
    if "extract_domain hn u \<in> set SKIP_DOMAINS" for t
    using skip_not_social [OF that] by (simp add: in_social_urls)
  ultimately show ?thesis
    by (simp add: search_business_all_urls)
qed

theorem deny_listed_discarded_witness:
  "extract_domain sample_hostname ''https://www.yelp.com/biz/acme'' \<in> set SKIP_DOMAINS
   \<and> ''https://www.yelp.com/biz/acme''
        \<in> set (all_urls (search_business sample_hostname (Inr sample_data)))
   \<and> website (search_business sample_hostname (Inr sample_data))
        \<noteq> Some ''https://www.yelp.com/biz/acme''
   \<and> (\<forall>t. (t, ''https://www.yelp.com/biz/acme'')
        \<notin> set (social_urls (search_business sample_hostname (Inr sample_data))))"
proof -
  have h: "extract_domain sample_hostname ''https://www.yelp.com/biz/acme'' \<in> set SKIP_DOMAINS"
    unfolding sample_domains by (simp add: SKIP_DOMAINS_def)
  from deny_listed_discarded
    [where hn = sample_hostname and data = sample_data
       and u = "''https://www.yelp.com/biz/acme''"] h sample_data_urls
  show ?thesis by simp
qed

section \<open>Facts about the example library\<close>



section \<open>Claims about the normalizer\<close>



section \<open>Facts about the patterns and the contact extractor\<close>

declare findall.simps [simp del] finditer_group.simps [simp del]















lemma foldl_invariant:
  assumes "I acc" and "\<And>acc a. a \<in> set xs \<Longrightarrow> I acc \<Longrightarrow> I (f acc a)"
  shows "I (foldl f acc xs)"
  using assms
proof (induction xs arbitrary: acc)
  case Nil
  then show ?case by simp
next
  case (Cons x xs)
  have "I (f acc x)" using Cons.prems by simp
  then have "I (foldl f (f acc x) xs)"
    using Cons.prems(2) by (intro Cons.IH) simp_all
  then show ?case by simp
qed








section \<open>Claims about the contact extractor\<close>

text \<open>
  C1: the emails are the harvested candidates cut to the first five and then filtered
  against the junk domains, in this order. On a page with six harvested addresses, the
  first of them on the junk list, five harvested addresses are not junk and four are
  returned.
\<close>

theorem emails_capped_before_filter:
  "length (filter (\<lambda>e. \<not> is_junk_email e) (raw_emails six_emails_page)) = 5
   \<and> scrape_url (sample_env (Inr (html_response ''<html/>'')) (Inr six_emails_page)
                   (Inr six_emails_page)) ''https://acme.com''
       = Inr \<lparr>emails = [''ventas@acme.com'', ''info@acme.com'', ''rrhh@acme.com'',
                         ''compras@acme.com''],
               phones = [], whatsapps = []\<rparr>"
  by code_simp




text \<open>
  When the \<open>lxml\<close> parser raises, the result is what \<open>html.parser\<close> gives, not the empty
  one, and an exception of \<open>html.parser\<close> leaves \<open>scrape_url\<close>.
\<close>

theorem parse_exception_not_empty:
  "bs_lxml (sample_env (Inr (html_response ''<html/>''))
              (Inl (Error ''FeatureNotFound'' ''lxml'')) (Inr contact_page)) ''<html/>''
     = Inl (Error ''FeatureNotFound'' ''lxml'')
   \<and> scrape_url (sample_env (Inr (html_response ''<html/>''))
                  (Inl (Error ''FeatureNotFound'' ''lxml'')) (Inr contact_page))
        ''https://acme.com''
     = Inr \<lparr>emails = [''info@acme.com''], phones = [], whatsapps = []\<rparr>
   \<and> scrape_url (sample_env (Inr (html_response ''<html/>''))
                  (Inl (Error ''FeatureNotFound'' ''lxml''))
                  (Inl (Error ''ParserRejectedMarkup'' ''html.parser'')))
        ''https://acme.com''
     = Inl (Error ''ParserRejectedMarkup'' ''html.parser'')"
  by code_simp

text \<open>
  C8, amended: \<open>scrape_url\<close> returns the all-empty result, without raising, whenever
  the request raises, the status is not 200, or the content type contains neither
  \<open>text/html\<close> nor \<open>application/xhtml\<close>; when the \<open>lxml\<close> parser raises and
  \<open>html.parser\<close> returns a document, the result is the extraction from that document.
\<close>

theorem scrape_url_empty_result:
  "(\<forall>e. http_get env url = Inl e \<longrightarrow> scrape_url env url = Inr empty_contacts)
   \<and> (\<forall>r. http_get env url = Inr r \<and> status_code r \<noteq> 200 \<longrightarrow>
          scrape_url env url = Inr empty_contacts)
   \<and> (\<forall>r. http_get env url = Inr r \<and> \<not> html_content_type (content_type r) \<longrightarrow>
          scrape_url env url = Inr empty_contacts)
   \<and> (\<forall>r e sp. http_get env url = Inr r \<and> status_code r = 200
          \<and> html_content_type (content_type r)
          \<and> bs_lxml env (response_text r) = Inl e
          \<and> bs_html_parser env (response_text r) = Inr sp \<longrightarrow>
          scrape_url env url
            = Inr (extract_contacts (set_order env) sp (response_text r)))"
proof -
  have a: "scrape_url env url = Inr empty_contacts" if "http_get env url = Inl e" for e
    using that by (simp add: scrape_url_def)
  have b: "scrape_url env url = Inr empty_contacts"
    if "http_get env url = Inr r \<and> status_code r \<noteq> 200" for r
    using that by (simp add: scrape_url_def)
  have c: "scrape_url env url = Inr empty_contacts"
    if "http_get env url = Inr r \<and> \<not> html_content_type (content_type r)" for r
    using that by (simp add: scrape_url_def html_content_type_def Let_def)
  have d: "scrape_url env url = Inr (extract_contacts (set_order env) sp (response_text r))"
    if "http_get env url = Inr r \<and> status_code r = 200
          \<and> html_content_type (content_type r)
          \<and> bs_lxml env (response_text r) = Inl e
          \<and> bs_html_parser env (response_text r) = Inr sp" for r e sp
    using that by (auto simp: scrape_url_def html_content_type_def Let_def parse_html_def)
  from a b c d show ?thesis by blast
qed

theorem scrape_url_empty_result_witness:
  "http_get (sample_env (Inl (Error ''ConnectTimeout'' '''')) (Inr contact_page)
       (Inr contact_page)) ''https://acme.com'' = Inl (Error ''ConnectTimeout'' '''')
   \<and> scrape_url (sample_env (Inl (Error ''ConnectTimeout'' '''')) (Inr contact_page)
       (Inr contact_page)) ''https://acme.com'' = Inr empty_contacts
   \<and> status_code not_found_response \<noteq> 200
   \<and> scrape_url (sample_env (Inr not_found_response) (Inr contact_page)
       (Inr contact_page)) ''https://acme.com'' = Inr empty_contacts
   \<and> \<not> html_content_type (content_type pdf_response)
   \<and> scrape_url (sample_env (Inr pdf_response) (Inr contact_page)
       (Inr contact_page)) ''https://acme.com'' = Inr empty_contacts
   \<and> html_content_type (content_type (html_response ''<html/>''))
   \<and> scrape_url (sample_env (Inr (html_response ''<html/>''))
                  (Inl (Error ''FeatureNotFound'' ''lxml'')) (Inr contact_page))
        ''https://acme.com''
       = Inr (extract_contacts (\<lambda>s. 0) contact_page ''<html/>'')"
proof -
  let ?u = "''https://acme.com''"
  let ?e1 = "sample_env (Inl (Error ''ConnectTimeout'' '''')) (Inr contact_page)
       (Inr contact_page)"
  let ?e2 = "sample_env (Inr not_found_response) (Inr contact_page) (Inr contact_page)"
  let ?e3 = "sample_env (Inr pdf_response) (Inr contact_page) (Inr contact_page)"
  let ?e4 = "sample_env (Inr (html_response ''<html/>''))
                  (Inl (Error ''FeatureNotFound'' ''lxml'')) (Inr contact_page)"
  have h1: "http_get ?e1 ?u = Inl (Error ''ConnectTimeout'' '''')"
    by (simp add: sample_env_def)
  have h2: "http_get ?e2 ?u = Inr not_found_response \<and> status_code not_found_response \<noteq> 200"
    by (simp add: sample_env_def not_found_response_def)
  have h3: "http_get ?e3 ?u = Inr pdf_response \<and> \<not> html_content_type (content_type pdf_response)"
    by (simp add: sample_env_def pdf_response_def html_content_type_def)
  have h4: "http_get ?e4 ?u = Inr (html_response ''<html/>'')
      \<and> status_code (html_response ''<html/>'') = 200
      \<and> html_content_type (content_type (html_response ''<html/>''))
      \<and> bs_lxml ?e4 (response_text (html_response ''<html/>''))
          = Inl (Error ''FeatureNotFound'' ''lxml'')
      \<and> bs_html_parser ?e4 (response_text (html_response ''<html/>'')) = Inr contact_page"
    by (simp add: sample_env_def html_response_def html_content_type_def)
  have o: "set_order ?e4 = (\<lambda>s. 0)" "response_text (html_response ''<html/>'') = ''<html/>''"
    by (simp_all add: sample_env_def html_response_def)
  from scrape_url_empty_result [of ?e1 ?u] h1
  have r1: "scrape_url ?e1 ?u = Inr empty_contacts" by blast
  from scrape_url_empty_result [of ?e2 ?u] h2
  have r2: "scrape_url ?e2 ?u = Inr empty_contacts" by blast
  from scrape_url_empty_result [of ?e3 ?u] h3
  have r3: "scrape_url ?e3 ?u = Inr empty_contacts" by blast
  from scrape_url_empty_result [of ?e4 ?u] h4
  have "scrape_url ?e4 ?u
      = Inr (extract_contacts (set_order ?e4) contact_page
               (response_text (html_response ''<html/>'')))" by blast
  then have r4: "scrape_url ?e4 ?u = Inr (extract_contacts (\<lambda>s. 0) contact_page ''<html/>'')"
    unfolding o .
  from h1 h2 h3 h4 r1 r2 r3 r4 show ?thesis by blast
qed

section \<open>Facts about the job coordinator\<close>







section \<open>Claims about the job coordinator\<close>



section \<open>Facts about the orchestrator\<close>

lemma compute_confidence_ge: "f_0_5 \<le> compute_confidence ct v s"
  unfolding compute_confidence_cases using float_order by auto

lemma new_rows_scored_refl: "new_rows_scored db db"
  by (simp add: new_rows_scored_def)

lemma store_source_contacts: "lead_contacts (store_source env sid bid t url db) = lead_contacts db"
  by (simp add: store_source_def Let_def)

lemma store_source_scored:
  "new_rows_scored db0 db \<Longrightarrow> new_rows_scored db0 (store_source env sid bid t url db)"
  by (simp add: new_rows_scored_def store_source_contacts)

lemma store_contact_scored:
  assumes "new_rows_scored db0 db" and "f_0_5 \<le> confidence"
  shows "new_rows_scored db0
           (store_contact env sid bid ct raw normalized is_valid confidence url db)"
  using assms by (auto simp: new_rows_scored_def store_contact_def Let_def)

lemma store_contacts_scored:
  "new_rows_scored db0 db \<Longrightarrow>
     new_rows_scored db0 (fst (store_contacts env nz sid bid ct url raws db))"
proof (induction raws arbitrary: db)
  case Nil
  then show ?case by simp
next
  case (Cons raw raws)
  show ?case
  proof (cases "nz raw")
    case (Inl e)
    with Cons.prems show ?thesis by simp
  next
    case (Inr r)
    obtain normalized is_valid where r: "r = (normalized, is_valid)" by (cases r)
    have "new_rows_scored db0
        (store_contact env sid bid ct raw normalized is_valid
           (compute_confidence ct is_valid url) url db)"
      using Cons.prems compute_confidence_ge by (rule store_contact_scored)
    from Cons.IH [OF this] Inr r show ?thesis by (simp add: Let_def)
  qed
qed

lemma scrape_and_store_scored:
  assumes "new_rows_scored db0 db"
  shows "new_rows_scored db0 (scrape_and_store env sid bid db url)"
proof (cases "scrape_url (scraper env) url")
  case (Inl e)
  with assms show ?thesis by (simp add: scrape_and_store_def)
next
  case (Inr found)
  let ?e = "store_contacts env (normalize_email (email_library env)) sid bid ''email'' url
                  (emails found) db"
  let ?p = "store_contacts env (\<lambda>raw. normalize_phone (phone_library env) raw ''AR'')
                       sid bid ''phone'' url (phones found) (fst ?e)"
  let ?w = "store_contacts env (\<lambda>raw. normalize_whatsapp (phone_library env) raw ''AR'')
                           sid bid ''whatsapp'' url (whatsapps found) (fst ?p)"
  have e: "new_rows_scored db0 (fst ?e)" using assms by (rule store_contacts_scored)
  then have p: "new_rows_scored db0 (fst ?p)" by (rule store_contacts_scored)
  then have w: "new_rows_scored db0 (fst ?w)" by (rule store_contacts_scored)
  have "scrape_and_store env sid bid db url = fst ?e
      \<or> scrape_and_store env sid bid db url = fst ?p
      \<or> scrape_and_store env sid bid db url = fst ?w"
    using Inr by (auto simp: scrape_and_store_def split: prod.splits option.splits)
  with e p w show ?thesis by auto
qed

lemma enrich_single_business_scored:
  "new_rows_scored db (fst (enrich_single_business env sid b db))"
proof (cases "db_configured env")
  case False
  then show ?thesis by (simp add: enrich_single_business_def new_rows_scored_refl)
next
  case True
  have sources: "new_rows_scored db
      (foldl (\<lambda>db social. store_source env sid (business_id b) (fst social) (snd social) db)
         db1 socials)" if "new_rows_scored db db1" for db1 socials
    using that by (rule foldl_invariant) (rule store_source_scored)
  have pages: "new_rows_scored db (foldl (scrape_and_store env sid (business_id b)) db1 urls)"
    if "new_rows_scored db db1" for db1 urls
    using that by (rule foldl_invariant) (rule scrape_and_store_scored)
  define brave_results where
    "brave_results = search_business (hostname_of env)
                 (brave_response env (name b @ '' '' @ locality b))"
  define found_website where
    "found_website = (case website brave_results of None \<Rightarrow> [] | Some w \<Rightarrow> w)"
  define db1 where
    "db1 = (if found_website \<noteq> []
            then store_source env sid (business_id b) ''website'' found_website db
            else db)"
  define db2 where
    "db2 = foldl (\<lambda>db social.
                    store_source env sid (business_id b) (fst social) (snd social) db)
                 db1 (social_urls brave_results)"
  have "\<exists>urls. fst (enrich_single_business env sid b db)
      = foldl (scrape_and_store env sid (business_id b)) db2 urls"
    using True
    unfolding enrich_single_business_def Let_def db2_def db1_def found_website_def
      brave_results_def
    by (simp only: if_False not_True_eq_False fst_conv) blast
  then obtain urls where r: "fst (enrich_single_business env sid b db)
      = foldl (scrape_and_store env sid (business_id b)) db2 urls" ..
  have "new_rows_scored db db1"
    unfolding db1_def by (simp add: store_source_scored new_rows_scored_refl)
  then have "new_rows_scored db db2"
    unfolding db2_def by (rule sources)
  then show ?thesis
    unfolding r by (rule pages)
qed

lemma enrich_single_business_returns:
  "snd (enrich_single_business env sid b db) = None"
  by (simp add: enrich_single_business_def Let_def)

lemma sample_scrape:
  "scrape_url (sample_env (Inr (html_response ''<html/>'')) (Inr contact_page)
                  (Inr contact_page)) url
     = Inr \<lparr>emails = [''info@acme.com''], phones = [], whatsapps = []\<rparr>"
  by code_simp

lemma sample_search:
  "search_business sample_hostname (Inr sample_data)
     = \<lparr>website = Some ''https://www.acme.com.ar/'',
        social_urls = [(''facebook'', ''https://www.facebook.com/acme'')],
        all_urls = [''https://www.yelp.com/biz/acme'', ''https://www.facebook.com/acme'',
                    ''https://www.acme.com.ar/'', ''https://acme-shop.com/contacto'']\<rparr>"
  by code_simp

lemma sample_email: "normalize_email sample_validate_email ''info@acme.com'' = Inr (''info@acme.com'', True)"
  by (simp add: normalize_email_def sample_validate_email_def strip_def is_space_def
      lower_def char_lower_def)

lemma sample_enrich:
  "lead_contacts (fst (enrich_single_business sample_orchestrator_env ''s-1''
       (sample_business ''1'') empty_database))
   = [\<lparr>lc_search_id = ''s-1'', lc_business_id = ''1'',
        lc_contact_type = ''email'', lc_raw_value = ''info@acme.com'',
        lc_normalized_value = ''info@acme.com'', lc_is_valid = True,
        lc_confidence = compute_confidence ''email'' True ''https://www.acme.com.ar/'',
        lc_source_url = ''https://www.acme.com.ar/''\<rparr>]"
  by (simp add: enrich_single_business_def sample_orchestrator_env_def sample_search
      sample_scrape sample_email Let_def store_source_def scrape_and_store_def
      store_contact_def empty_database_def sample_business_def)

section \<open>Claims about stored confidences\<close>

text \<open>
  C10: for every contact type, validity flag and source, the confidence is at least
  0.5, the score of an invalid contact harvested from free text; so every contact row
  that \<open>enrich_single_business\<close> adds to the database carries a confidence of at least
  0.5.
\<close>

theorem compute_confidence_at_least_base:
  "f_0_5 \<le> compute_confidence ct v s
   \<and> compute_confidence ct False [] = f_0_5
   \<and> (\<forall>c \<in> set (lead_contacts (fst (enrich_single_business env sid b db))).
         c \<in> set (lead_contacts db) \<or> f_0_5 \<le> lc_confidence c)"
proof -
  have base: "compute_confidence ct False [] = f_0_5"
    unfolding compute_confidence_cases by simp
  from enrich_single_business_scored [of db env sid b]
  have "\<forall>c \<in> set (lead_contacts (fst (enrich_single_business env sid b db))).
         c \<in> set (lead_contacts db) \<or> f_0_5 \<le> lc_confidence c"
    unfolding new_rows_scored_def .
  with base compute_confidence_ge [of ct v s] show ?thesis by blast
qed

theorem compute_confidence_at_least_base_witness:
  "lead_contacts (fst (enrich_single_business sample_orchestrator_env ''s-1''
       (sample_business ''1'') empty_database))
   = [\<lparr>lc_search_id = ''s-1'', lc_business_id = ''1'',
        lc_contact_type = ''email'', lc_raw_value = ''info@acme.com'',
        lc_normalized_value = ''info@acme.com'', lc_is_valid = True,
        lc_confidence = compute_confidence ''email'' True ''https://www.acme.com.ar/'',
        lc_source_url = ''https://www.acme.com.ar/''\<rparr>]
   \<and> lead_contacts empty_database = []
   \<and> f_0_5 \<le> compute_confidence ''email'' True ''https://www.acme.com.ar/''"
proof -
  have e: "lead_contacts empty_database = []"
    by (simp add: empty_database_def)
  from compute_confidence_at_least_base
    [where env = sample_orchestrator_env and sid = "''s-1''" and b = "sample_business ''1''"
       and db = empty_database]
  have "\<forall>c \<in> set (lead_contacts (fst (enrich_single_business sample_orchestrator_env ''s-1''
       (sample_business ''1'') empty_database))).
         c \<in> set (lead_contacts empty_database) \<or> f_0_5 \<le> lc_confidence c"
    by blast
  then have "f_0_5 \<le> compute_confidence ''email'' True ''https://www.acme.com.ar/''"
    unfolding sample_enrich e by simp
  with sample_enrich e show ?thesis by blast
qed

end
